theory Spec2Isabelle
  imports Main "HOL-Library.Word" "HOL-Library.Sublist"
begin

section \<open>The RunOnceDuration admission plugin\<close>

text \<open>
  A shallow embedding of \<^verbatim>\<open>pkg/quota/admission/runonceduration/admission.go\<close>:
  the method \<^verbatim>\<open>Admit\<close> and its helper \<^verbatim>\<open>applyProjectAnnotationOverride\<close>.
  The pod that the Go code mutates through a pointer is passed in and returned; every
  assignment to \<^verbatim>\<open>pod.Spec.ActiveDeadlineSeconds\<close> is also recorded, in order, in a
  list of writes, so that "which assignment ran" can be stated.
\<close>

subsection \<open>Data\<close>

text \<open>Go's \<^verbatim>\<open>uint64\<close> and \<^verbatim>\<open>int64\<close>: 64-bit words, the latter read with \<open>sint\<close>.\<close>

type_synonym uint64 = "64 word"
type_synonym int64 = "64 word"

text \<open>
  Modelled from the spec: the type \<^verbatim>\<open>kapi.RestartPolicy\<close> and its constants are
  declared in the Kubernetes API package, which is not among the sources. The spec
  names the three policies \<^verbatim>\<open>Always\<close>, \<^verbatim>\<open>OnFailure\<close> and \<^verbatim>\<open>Never\<close>. The type
  is a Go string type, so a pod can carry any string there, and \<^verbatim>\<open>Admit\<close>'s switch
  has a default case for all of them.
\<close>

type_synonym RestartPolicy = string

definition RestartPolicyAlways :: RestartPolicy where
  "RestartPolicyAlways = ''Always''"

definition RestartPolicyOnFailure :: RestartPolicy where
  "RestartPolicyOnFailure = ''OnFailure''"

definition RestartPolicyNever :: RestartPolicy where
  "RestartPolicyNever = ''Never''"

text \<open>
  Of \<^verbatim>\<open>kapi.Pod\<close> the plugin reads \<^verbatim>\<open>Spec.RestartPolicy\<close> and writes
  \<^verbatim>\<open>Spec.ActiveDeadlineSeconds\<close>, a \<^verbatim>\<open>*int64\<close> (\<open>None\<close> is the nil pointer).
\<close>

record PodSpec =
  RestartPolicy :: RestartPolicy
  ActiveDeadlineSeconds :: "int64 option"

record Pod =
  Spec :: PodSpec

text \<open>
  The request's object is a \<^verbatim>\<open>runtime.Object\<close>. The type assertion
  \<^verbatim>\<open>.(*kapi.Pod)\<close> succeeds on a pod and fails on everything else (nil included);
  the plugin only ever formats such an object with \<^verbatim>\<open>%#v\<close>, so it is given by
  that text.
\<close>

datatype Object = PodObject Pod | OtherObject string

record GroupResource =
  Group :: string
  Resource :: string

text \<open>
  Modelled from the spec: \<^verbatim>\<open>kapi.Resource\<close> belongs to the Kubernetes API package,
  which is not among the sources. It qualifies a resource name with the group of the
  core API, the empty string; the spec's "resource type is pods" is equality with
  \<open>kapi_Resource ''pods''\<close>.
\<close>

definition kapi_Resource :: "string \<Rightarrow> GroupResource" where
  "kapi_Resource resource = \<lparr>Group = [], Resource = resource\<rparr>"

text \<open>The four getters of \<^verbatim>\<open>admission.Attributes\<close> that \<^verbatim>\<open>Admit\<close> calls.\<close>

record Attributes =
  GetResource :: GroupResource
  GetSubresource :: string
  GetNamespace :: string
  GetObject :: Object

subsection \<open>Errors\<close>

datatype strconv_err = ErrSyntax | ErrRange

text \<open>
  Go errors as values. \<open>ErrorString\<close> is an error known by its text (what the
  namespace cache returns, and \<^verbatim>\<open>fmt.Errorf\<close> without an error argument);
  \<open>NumError\<close> is \<^verbatim>\<open>*strconv.NumError\<close> with its fields \<^verbatim>\<open>Func\<close>, \<^verbatim>\<open>Num\<close>
  and \<^verbatim>\<open>Err\<close>; \<open>Errorf pre e\<close> is \<^verbatim>\<open>fmt.Errorf\<close> with a format that ends in
  \<^verbatim>\<open>%v\<close>, where \<open>pre\<close> is the formatted text before it and \<open>e\<close> the error
  printed there; \<open>Forbidden\<close> is the result of \<^verbatim>\<open>admission.NewForbidden\<close>.
\<close>

datatype go_error =
    ErrorString string
  | NumError string string strconv_err
  | Errorf string go_error
  | Forbidden Attributes go_error

text \<open>
  Modelled from the spec: \<^verbatim>\<open>admission.NewForbidden\<close> belongs to the Kubernetes
  admission package, which is not among the sources. The spec describes its result as
  "a rejection error wrapping the resolver's error message".
\<close>

definition NewForbidden :: "Attributes \<Rightarrow> go_error \<Rightarrow> go_error" where
  "NewForbidden attributes err = Forbidden attributes err"

text \<open>
  The text of an error (Go's \<^verbatim>\<open>Error()\<close> method). Two parts belong to libraries
  and are parameters: \<open>quote\<close> is \<^verbatim>\<open>strconv.Quote\<close>, used by \<^verbatim>\<open>NumError\<close>, and
  \<open>who\<close> is the text that a forbidden error puts before the message it wraps
  (the resource and the object's name).
\<close>

fun strconv_err_text :: "strconv_err \<Rightarrow> string" where
  "strconv_err_text ErrSyntax = ''invalid syntax''"
| "strconv_err_text ErrRange = ''value out of range''"

fun error_text :: "(string \<Rightarrow> string) \<Rightarrow> (Attributes \<Rightarrow> string) \<Rightarrow> go_error \<Rightarrow> string" where
  "error_text quote who (ErrorString s) = s"
| "error_text quote who (NumError fn num err) =
     ''strconv.'' @ fn @ '': parsing '' @ quote num @ '': '' @ strconv_err_text err"
| "error_text quote who (Errorf pre err) = pre @ error_text quote who err"
| "error_text quote who (Forbidden attributes err) = who attributes @ error_text quote who err"

subsection \<open>\<^verbatim>\<open>strconv.ParseInt(s, 10, 64)\<close>\<close>

text \<open>
  Modelled from the spec: \<^verbatim>\<open>strconv.ParseInt\<close> is Go's standard library, not among
  the sources; the spec says that the annotation's value is parsed "as a base-10 signed
  64-bit integer". The definitions follow the library's algorithm at the base and bit
  size of the only call, and \<open>ParseInt_decimal\<close> below shows that they accept exactly
  the strings that the spec's words describe. For base 10 a byte is a digit when it lies
  between \<^verbatim>\<open>'0'\<close> (48) and \<^verbatim>\<open>'9'\<close> (57); a letter is a digit value of at least
  10 and hence a syntax error, like every other byte. \<open>ParseUint_loop\<close> is the body of
  \<^verbatim>\<open>ParseUint\<close>'s loop over the bytes, with its two overflow checks on the 64-bit
  accumulator.
\<close>

definition cutoff_uint :: uint64 where
  "cutoff_uint = 1844674407370955162"

definition maxVal :: uint64 where
  "maxVal = 18446744073709551615"

fun ParseUint_loop :: "uint64 \<Rightarrow> string \<Rightarrow> uint64 \<times> strconv_err option" where
  "ParseUint_loop n [] = (n, None)"
| "ParseUint_loop n (c # cs) =
     (if (of_char c :: nat) < 48 then (0, Some ErrSyntax)
      else if 57 < (of_char c :: nat) then (0, Some ErrSyntax)
      else if cutoff_uint \<le> n then (maxVal, Some ErrRange)
      else
        (let d = (of_nat (of_char c - 48) :: uint64);
             n10 = n * 10;
             n1 = n10 + d
         in if n1 < n10 then (maxVal, Some ErrRange)
            else if maxVal < n1 then (maxVal, Some ErrRange)
            else ParseUint_loop n1 cs))"

definition ParseUint :: "string \<Rightarrow> uint64 \<times> strconv_err option" where
  "ParseUint s = (if s = [] then (0, Some ErrSyntax) else ParseUint_loop 0 s)"

definition cutoff_int :: uint64 where
  "cutoff_int = 9223372036854775808"

text \<open>
  \<^verbatim>\<open>ParseInt\<close> picks off a leading sign, converts the rest unsigned and checks the
  signed range. It returns a value and an error, as in Go.
\<close>

definition ParseInt :: "string \<Rightarrow> int64 \<times> go_error option" where
  "ParseInt s0 =
     (case s0 of
        [] \<Rightarrow> (0, Some (NumError ''ParseInt'' s0 ErrSyntax))
      | c # cs \<Rightarrow>
          (let neg = (c = CHR ''-'');
               s = (if c = CHR ''+'' then cs else if c = CHR ''-'' then cs else s0)
           in case ParseUint s of
                (un, Some ErrSyntax) \<Rightarrow> (0, Some (NumError ''ParseInt'' s0 ErrSyntax))
              | (un, _) \<Rightarrow>
                  if \<not> neg \<and> cutoff_int \<le> un
                    then (cutoff_int - 1, Some (NumError ''ParseInt'' s0 ErrRange))
                  else if neg \<and> cutoff_int < un
                    then (- cutoff_int, Some (NumError ''ParseInt'' s0 ErrRange))
                  else (if neg then - un else un, None)))"

text \<open>
  The part of \<^verbatim>\<open>ParseInt\<close> after the sign is picked off, as a function of the sign
  and the rest of the string; \<open>ParseInt_after_sign\<close> below shows that it is that part.
\<close>

definition after_sign :: "bool \<Rightarrow> string \<Rightarrow> string \<Rightarrow> int64 \<times> go_error option" where
  "after_sign neg s0 s =
     (case ParseUint s of
        (un, Some ErrSyntax) \<Rightarrow> (0, Some (NumError ''ParseInt'' s0 ErrSyntax))
      | (un, _) \<Rightarrow>
          if \<not> neg \<and> cutoff_int \<le> un
            then (cutoff_int - 1, Some (NumError ''ParseInt'' s0 ErrRange))
          else if neg \<and> cutoff_int < un
            then (- cutoff_int, Some (NumError ''ParseInt'' s0 ErrRange))
          else (if neg then - un else un, None))"

subsection \<open>A base-10 signed 64-bit integer\<close>

text \<open>
  The specification's words for what the annotation must be, written out: an optional
  sign, then at least one decimal digit and nothing else, denoting an integer from
  \<open>- 2 ^ 63\<close> to \<open>2 ^ 63 - 1\<close>. \<open>decimal_value m ds\<close> is the number that the digits
  \<open>ds\<close> denote after a prefix of value \<open>m\<close>. \<open>ParseInt_decimal\<close> below shows that
  \<^verbatim>\<open>ParseInt\<close> accepts exactly these strings, with this value.
\<close>

definition is_digit :: "char \<Rightarrow> bool" where
  "is_digit c = (48 \<le> (of_char c :: nat) \<and> (of_char c :: nat) \<le> 57)"

fun decimal_value :: "nat \<Rightarrow> string \<Rightarrow> nat" where
  "decimal_value m [] = m"
| "decimal_value m (c # cs) = decimal_value (10 * m + (of_char c - 48)) cs"

definition decimal_int64 :: "string \<Rightarrow> int option" where
  "decimal_int64 s =
     (let neg = (s \<noteq> [] \<and> hd s = CHR ''-'');
          ds = (if s \<noteq> [] \<and> (hd s = CHR ''+'' \<or> hd s = CHR ''-'') then tl s else s);
          i = (if neg then - int (decimal_value 0 ds) else int (decimal_value 0 ds))
      in if ds \<noteq> [] \<and> list_all is_digit ds \<and> - (2 ^ 63) \<le> i \<and> i < 2 ^ 63
         then Some i else None)"

subsection \<open>The namespace cache and the plugin\<close>

record Namespace =
  Name :: string
  Annotations :: "(string \<rightharpoonup> string) option"

text \<open>
  The project cache is an external collaborator: it is given by what its method
  \<^verbatim>\<open>GetNamespace\<close> returns for a name, an error (\<open>Inl\<close>) or the namespace.
  \<^verbatim>\<open>Annotations\<close> is a Go map, \<open>None\<close> when it is nil. The plugin's
  \<^verbatim>\<open>Validate\<close> refuses a plugin whose cache is nil, so \<^verbatim>\<open>Admit\<close> is modelled for
  plugins that hold a cache; the configuration may be nil.
\<close>

type_synonym ProjectCache = "string \<Rightarrow> go_error + Namespace"

record RunOnceDurationConfig =
  ActiveDeadlineSecondsOverride :: "int64 option"

record runOnceDuration =
  config :: "RunOnceDurationConfig option"
  cache :: ProjectCache

text \<open>An executed assignment to \<^verbatim>\<open>pod.Spec.ActiveDeadlineSeconds\<close>: the one in
  \<^verbatim>\<open>applyProjectAnnotationOverride\<close>, or the one in \<^verbatim>\<open>Admit\<close>.\<close>

datatype Write = OverrideWrite int64 | DefaultWrite int64

definition set_ActiveDeadlineSeconds :: "int64 option \<Rightarrow> Pod \<Rightarrow> Pod" where
  "set_ActiveDeadlineSeconds v pod = pod\<lparr>Spec := (Spec pod)\<lparr>ActiveDeadlineSeconds := v\<rparr>\<rparr>"

text \<open>
  \<^verbatim>\<open>applyProjectAnnotationOverride\<close>. The annotation key
  \<^verbatim>\<open>api.ActiveDeadlineSecondsOverrideAnnotation\<close> is a constant of the plugin's
  \<^verbatim>\<open>api\<close> package, which is not among the sources: it is the parameter \<open>key\<close>.
  The result is the returned pair, the pod after the call and the writes made.
\<close>

definition applyProjectAnnotationOverride ::
  "string \<Rightarrow> runOnceDuration \<Rightarrow> string \<Rightarrow> Pod \<Rightarrow> bool \<times> go_error option \<times> Pod \<times> Write list" where
  "applyProjectAnnotationOverride key a namespace pod =
     (case cache a namespace of
        Inl err \<Rightarrow> (False, Some (Errorf ''error looking up pod namespace: '' err), pod, [])
      | Inr ns \<Rightarrow>
          (case Annotations ns of
             None \<Rightarrow> (False, None, pod, [])
           | Some annotations \<Rightarrow>
               (case annotations key of
                  None \<Rightarrow> (False, None, pod, [])
                | Some override \<Rightarrow>
                    (case ParseInt override of
                       (overrideInt64, Some err) \<Rightarrow>
                         (False,
                          Some (Errorf (''cannot parse the ActiveDeadlineSeconds override (''
                                        @ override @ '') for project '' @ Name ns @ '': '') err),
                          pod, [])
                     | (overrideInt64, None) \<Rightarrow>
                         (True, None, set_ActiveDeadlineSeconds (Some overrideInt64) pod,
                          [OverrideWrite overrideInt64])))))"

text \<open>
  \<^verbatim>\<open>Admit\<close>. The result is the returned error (\<open>None\<close> is nil), the request with
  the pod as the call leaves it, and the writes made, in order.
\<close>

definition Admit ::
  "string \<Rightarrow> runOnceDuration \<Rightarrow> Attributes \<Rightarrow> go_error option \<times> Attributes \<times> Write list" where
  "Admit key a attributes =
     (case config a of
        None \<Rightarrow> (None, attributes, [])
      | Some cfg \<Rightarrow>
          if GetResource attributes \<noteq> kapi_Resource ''pods'' then (None, attributes, [])
          else if 0 < length (GetSubresource attributes) then (None, attributes, [])
          else
            (case GetObject attributes of
               OtherObject repr \<Rightarrow>
                 (Some (NewForbidden attributes (ErrorString (''unexpected object: '' @ repr))),
                  attributes, [])
             | PodObject pod \<Rightarrow>
                 if RestartPolicy (Spec pod) = RestartPolicyNever
                    \<or> RestartPolicy (Spec pod) = RestartPolicyOnFailure
                 then
                   (case applyProjectAnnotationOverride key a (GetNamespace attributes) pod of
                      (appliedProjectOverride, Some err, pod1, ws) \<Rightarrow>
                        (Some (NewForbidden (attributes\<lparr>GetObject := PodObject pod1\<rparr>) err),
                         attributes\<lparr>GetObject := PodObject pod1\<rparr>, ws)
                    | (appliedProjectOverride, None, pod1, ws) \<Rightarrow>
                        (case ActiveDeadlineSecondsOverride cfg of
                           Some d \<Rightarrow>
                             if \<not> appliedProjectOverride
                             then (None,
                                   attributes\<lparr>GetObject :=
                                     PodObject (set_ActiveDeadlineSeconds (Some d) pod1)\<rparr>,
                                   ws @ [DefaultWrite d])
                             else (None, attributes\<lparr>GetObject := PodObject pod1\<rparr>, ws)
                         | None \<Rightarrow> (None, attributes\<lparr>GetObject := PodObject pod1\<rparr>, ws)))
                 else (None, attributes, [])))"

subsection \<open>Scenarios\<close>

text \<open>
  The fixtures of the specification's scenarios: a cache that knows the namespace
  \<^verbatim>\<open>batch-ns\<close> with given annotations and no other namespace, a plugin with a given
  cluster-wide default, a plugin created without configuration, and a request for a pod
  in a given namespace.
\<close>

definition batch_ns :: "(string \<rightharpoonup> string) option \<Rightarrow> ProjectCache" where
  "batch_ns annotations =
     (\<lambda>name. if name = ''batch-ns''
             then Inr \<lparr>Name = ''batch-ns'', Annotations = annotations\<rparr>
             else Inl (ErrorString (''namespace '' @ name @ '' does not exist'')))"

definition plugin :: "int64 option \<Rightarrow> ProjectCache \<Rightarrow> runOnceDuration" where
  "plugin d c = \<lparr>config = Some \<lparr>ActiveDeadlineSecondsOverride = d\<rparr>, cache = c\<rparr>"

definition unconfigured :: "ProjectCache \<Rightarrow> runOnceDuration" where
  "unconfigured c = \<lparr>config = None, cache = c\<rparr>"

definition pod_of :: "RestartPolicy \<Rightarrow> int64 option \<Rightarrow> Pod" where
  "pod_of policy deadline = \<lparr>Spec = \<lparr>RestartPolicy = policy, ActiveDeadlineSeconds = deadline\<rparr>\<rparr>"

definition pod_request :: "string \<Rightarrow> RestartPolicy \<Rightarrow> int64 option \<Rightarrow> Attributes" where
  "pod_request namespace policy deadline =
     \<lparr>GetResource = kapi_Resource ''pods'', GetSubresource = [], GetNamespace = namespace,
      GetObject = PodObject (pod_of policy deadline)\<rparr>"

section \<open>Properties\<close>

subsection \<open>\<^verbatim>\<open>ParseInt\<close> reads base-10 signed 64-bit integers\<close>

text \<open>
  The loop of \<^verbatim>\<open>ParseUint\<close> succeeds exactly on digit strings whose value fits 64
  bits, and returns that value: its two overflow checks are exact.
\<close>

lemma decimal_value_ge: "m \<le> decimal_value m cs"
proof (induction cs arbitrary: m)
  case Nil
  show ?case by simp
next
  case (Cons c cs)
  have "m \<le> 10 * m + (of_char c - 48)" by simp
  also have "\<dots> \<le> decimal_value (10 * m + (of_char c - 48)) cs" by (rule Cons.IH)
  finally show ?case by simp
qed

lemma times_ten:
  fixes n :: uint64
  assumes "\<not> cutoff_uint \<le> n"
  shows "unat (n * 10) = unat n * 10"
proof -
  from assms have "unat n < 1844674407370955162"
    by (simp add: cutoff_uint_def word_le_nat_alt)
  then have "unat n * unat (10 :: uint64) < 2 ^ LENGTH(64)" by simp
  then have "unat (n * 10) = unat n * unat (10 :: uint64)" by (simp only: unat_mult_lem)
  then show ?thesis by simp
qed

lemma over_cutoff:
  fixes n :: uint64
  assumes "cutoff_uint \<le> n"
  shows "2 ^ 64 \<le> 10 * unat n + k"
proof -
  from assms have "1844674407370955162 \<le> unat n"
    by (simp add: cutoff_uint_def word_le_nat_alt)
  then show ?thesis by simp
qed

lemma digit_word:
  assumes "48 \<le> (of_char c :: nat)" and "(of_char c :: nat) \<le> 57"
  shows "unat (of_nat (of_char c - 48) :: uint64) = of_char c - 48"
proof -
  from assms have "(of_char c :: nat) - 48 < 2 ^ 64" by simp
  then show ?thesis by (simp add: unat_of_nat)
qed

lemma plus_digit:
  fixes m d :: uint64
  shows "m + d < m \<longleftrightarrow> 2 ^ 64 \<le> unat m + unat d"
proof -
  have "m \<le> m + d \<longleftrightarrow> unat m + unat d < 2 ^ LENGTH(64)" by (rule no_olen_add_nat)
  then show ?thesis by (simp add: not_le [symmetric])
qed

lemma maxVal_top: "\<not> maxVal < (n :: uint64)"
proof -
  have "unat n < 2 ^ LENGTH(64)" by (rule unsigned_less)
  then show ?thesis by (simp add: maxVal_def word_less_nat_alt)
qed

lemma ParseUint_loop_decimal:
  "ParseUint_loop n cs = (r, None)
   \<longleftrightarrow> list_all is_digit cs \<and> decimal_value (unat n) cs < 2 ^ 64
       \<and> r = of_nat (decimal_value (unat n) cs)"
proof (induction cs arbitrary: n)
  case Nil
  show ?case using unsigned_less [of n, where 'a = nat] by auto
next
  case (Cons c cs)
  show ?case
  proof (cases "is_digit c")
    case False
    then show ?thesis by (auto simp add: is_digit_def)
  next
    case True
    then have lo: "48 \<le> (of_char c :: nat)" and hi: "(of_char c :: nat) \<le> 57"
      by (simp_all add: is_digit_def)
    let ?d = "of_nat (of_char c - 48) :: uint64"
    note d = digit_word [OF lo hi]
    show ?thesis
    proof (cases "cutoff_uint \<le> n")
      case over: True
      have "2 ^ 64 \<le> 10 * unat n + (of_char c - 48)" by (rule over_cutoff [OF over])
      also have "\<dots> \<le> decimal_value (10 * unat n + (of_char c - 48)) cs"
        by (rule decimal_value_ge)
      finally have "\<not> decimal_value (unat n) (c # cs) < 2 ^ 64" by simp
      with over lo hi show ?thesis by simp
    next
      case under: False
      note t = times_ten [OF under]
      show ?thesis
      proof (cases "n * 10 + ?d < n * 10")
        case wraps: True
        then have "2 ^ 64 \<le> 10 * unat n + (of_char c - 48)"
          by (simp add: plus_digit t d mult.commute)
        also have "\<dots> \<le> decimal_value (10 * unat n + (of_char c - 48)) cs"
          by (rule decimal_value_ge)
        finally have "\<not> decimal_value (unat n) (c # cs) < 2 ^ 64" by simp
        with under lo hi wraps show ?thesis by (simp add: Let_def)
      next
        case fits: False
        then have "unat (n * 10) + unat ?d < 2 ^ LENGTH(64)"
          by (simp add: plus_digit)
        then have "unat (n * 10 + ?d) = unat (n * 10) + unat ?d"
          by (simp only: unat_add_lem)
        then have step: "unat (n * 10 + ?d) = 10 * unat n + (of_char c - 48)"
          by (simp add: t d)
        have "ParseUint_loop n (c # cs) = ParseUint_loop (n * 10 + ?d) cs"
          using under lo hi fits by (simp add: Let_def maxVal_top)
        then show ?thesis using True by (simp add: Cons.IH step)
      qed
    qed
  qed
qed


lemma ParseUint_loop_range: "ParseUint_loop n cs = (r, Some ErrRange) \<Longrightarrow> r = maxVal"
  by (induction cs arbitrary: n) (auto simp add: Let_def split: if_splits)

lemma sint_of_small:
  assumes "k < 2 ^ 63"
  shows "sint (of_nat k :: int64) = int k"
proof -
  have "sint (of_nat k :: int64) = signed_take_bit (LENGTH(64) - Suc 0) (int k)"
    by (simp only: signed_of_nat of_int_eq_id id_apply)
  also have "\<dots> = int k"
    using assms by (simp add: signed_take_bit_int_eq_self)
  finally show ?thesis .
qed

lemma sint_of_negated:
  assumes "k \<le> 2 ^ 63"
  shows "sint (- of_nat k :: int64) = - int k"
proof -
  have "(- of_nat k :: int64) = word_of_int (- int k)" by simp
  then have "sint (- of_nat k :: int64) = signed_take_bit (LENGTH(64) - Suc 0) (- int k)"
    by (simp only: signed_of_int of_int_eq_id id_apply)
  also have "\<dots> = - int k"
    using assms by (simp add: signed_take_bit_int_eq_self)
  finally show ?thesis .
qed

lemma cutoff_int_le:
  assumes "k < 2 ^ 64"
  shows "cutoff_int \<le> (of_nat k :: uint64) \<longleftrightarrow> 2 ^ 63 \<le> k"
    and "cutoff_int < (of_nat k :: uint64) \<longleftrightarrow> 2 ^ 63 < k"
  using assms by (simp_all add: cutoff_int_def word_le_nat_alt word_less_nat_alt unat_of_nat)

lemma maxVal_over: "cutoff_int \<le> maxVal" "cutoff_int < maxVal"
  by (simp_all add: cutoff_int_def maxVal_def word_le_nat_alt word_less_nat_alt)

lemma after_sign_decimal:
  "after_sign neg s0 ds = (v, None)
   \<longleftrightarrow> ds \<noteq> [] \<and> list_all is_digit ds
       \<and> (if neg then decimal_value 0 ds \<le> 2 ^ 63 \<and> sint v = - int (decimal_value 0 ds)
           else decimal_value 0 ds < 2 ^ 63 \<and> sint v = int (decimal_value 0 ds))"
proof (cases "ds = []")
  case True
  then show ?thesis by (simp add: after_sign_def ParseUint_def)
next
  case False
  obtain un e where loop: "ParseUint_loop 0 ds = (un, e)"
    by (cases "ParseUint_loop 0 ds") auto
  note spec = ParseUint_loop_decimal [of 0 ds, simplified]
  show ?thesis
  proof (cases e)
    case None
    with loop spec [of un] have digits: "list_all is_digit ds"
      and small: "decimal_value 0 ds < 2 ^ 64"
      and un: "un = of_nat (decimal_value 0 ds)"
      by simp_all
    let ?k = "decimal_value 0 ds"
    show ?thesis
    proof (cases neg)
      case positive: False
      show ?thesis
      proof (cases "?k < 2 ^ 63")
        case True
        then have "sint v = int ?k \<longleftrightarrow> v = of_nat ?k"
          using sint_of_small [OF True] by (metis signed_word_eqI)
        with True positive show ?thesis
          using False loop None digits cutoff_int_le(1) [OF small]
          by (auto simp add: after_sign_def ParseUint_def un)
      next
        case False
        with positive show ?thesis
          using \<open>ds \<noteq> []\<close> loop None cutoff_int_le(1) [OF small]
          by (auto simp add: after_sign_def ParseUint_def un)
      qed
    next
      case negative: True
      show ?thesis
      proof (cases "?k \<le> 2 ^ 63")
        case True
        then have "sint v = - int ?k \<longleftrightarrow> v = - of_nat ?k"
          using sint_of_negated [OF True] by (metis signed_word_eqI)
        with True negative show ?thesis
          using False loop None digits cutoff_int_le(2) [OF small]
          by (auto simp add: after_sign_def ParseUint_def un)
      next
        case False
        with negative show ?thesis
          using \<open>ds \<noteq> []\<close> loop None cutoff_int_le(2) [OF small]
          by (auto simp add: after_sign_def ParseUint_def un)
      qed
    qed
  next
    case (Some err)
    with loop spec have bad: "\<not> list_all is_digit ds \<or> \<not> decimal_value 0 ds < 2 ^ 64"
      by auto
    have failed: "snd (after_sign neg s0 ds) \<noteq> None"
    proof (cases err)
      case ErrSyntax
      with loop Some False show ?thesis by (simp add: after_sign_def ParseUint_def)
    next
      case ErrRange
      with loop Some have "un = maxVal" by (simp add: ParseUint_loop_range)
      with loop Some ErrRange False show ?thesis
        by (cases neg) (simp_all add: after_sign_def ParseUint_def maxVal_over)
    qed
    from bad have "\<not> (list_all is_digit ds
       \<and> (if neg then decimal_value 0 ds \<le> 2 ^ 63 \<and> sint v = - int (decimal_value 0 ds)
           else decimal_value 0 ds < 2 ^ 63 \<and> sint v = int (decimal_value 0 ds)))"
      by (auto split: if_splits)
    with failed show ?thesis by auto
  qed
qed

lemma ParseInt_after_sign:
  "ParseInt s0 =
     (case s0 of
        [] \<Rightarrow> (0, Some (NumError ''ParseInt'' s0 ErrSyntax))
      | c # cs \<Rightarrow> after_sign (c = CHR ''-'') s0
                    (if c = CHR ''+'' then cs else if c = CHR ''-'' then cs else s0))"
  by (cases s0) (simp_all add: ParseInt_def after_sign_def Let_def)

lemma ParseInt_decimal: "ParseInt s = (v, None) \<longleftrightarrow> decimal_int64 s = Some (sint v)"
proof (cases s)
  case Nil
  then show ?thesis by (simp add: ParseInt_def decimal_int64_def)
next
  case (Cons c cs)
  let ?neg = "c = CHR ''-''"
  let ?ds = "if c = CHR ''+'' then cs else if c = CHR ''-'' then cs else s"
  have "ParseInt s = after_sign ?neg s ?ds"
    by (simp add: ParseInt_after_sign Cons)
  moreover have "decimal_int64 s = Some (sint v)
    \<longleftrightarrow> ?ds \<noteq> [] \<and> list_all is_digit ?ds
       \<and> (if ?neg then decimal_value 0 ?ds \<le> 2 ^ 63 \<and> sint v = - int (decimal_value 0 ?ds)
           else decimal_value 0 ?ds < 2 ^ 63 \<and> sint v = int (decimal_value 0 ?ds))"
    using sint_range_size [of v]
    by (auto simp add: decimal_int64_def Cons Let_def word_size)
  ultimately show ?thesis by (simp only: after_sign_decimal)
qed

text \<open>
  Hence a string that denotes the integer \<open>i\<close> is accepted with the word that reads
  back as \<open>i\<close>, and \<^verbatim>\<open>ParseInt\<close> returns an error exactly on the strings that
  denote no such integer.
\<close>

lemma decimal_int64_range:
  assumes "decimal_int64 s = Some i"
  shows "- (2 ^ 63) \<le> i" and "i < 2 ^ 63"
  using assms by (auto simp add: decimal_int64_def Let_def split: if_splits)

lemma ParseInt_accepts:
  assumes "decimal_int64 s = Some i"
  shows "ParseInt s = (word_of_int i, None)" and "sint (word_of_int i :: int64) = i"
proof -
  from decimal_int64_range [OF assms]
  show "sint (word_of_int i :: int64) = i"
    by (simp add: signed_of_int signed_take_bit_int_eq_self)
  then show "ParseInt s = (word_of_int i, None)" using assms
    by (simp add: ParseInt_decimal)
qed

lemma ParseInt_rejects: "snd (ParseInt s) \<noteq> None \<longleftrightarrow> decimal_int64 s = None"
proof (cases "decimal_int64 s")
  case None
  have "snd (ParseInt s) \<noteq> None"
  proof
    assume "snd (ParseInt s) = None"
    then have "ParseInt s = (fst (ParseInt s), None)" by (metis prod.collapse)
    then have "decimal_int64 s = Some (sint (fst (ParseInt s)))" by (simp only: ParseInt_decimal)
    with None show False by simp
  qed
  with None show ?thesis by simp
next
  case (Some i)
  from ParseInt_accepts(1) [OF this] Some show ?thesis by simp
qed

subsection \<open>The four ways out of the resolver\<close>

lemma resolver_lookup_failed:
  "cache a namespace = Inl err \<Longrightarrow>
   applyProjectAnnotationOverride key a namespace pod =
     (False, Some (Errorf ''error looking up pod namespace: '' err), pod, [])"
  by (simp add: applyProjectAnnotationOverride_def)

lemma resolver_no_override:
  assumes "cache a namespace = Inr ns"
    and "Annotations ns = None
         \<or> (\<exists>annotations. Annotations ns = Some annotations \<and> annotations key = None)"
  shows "applyProjectAnnotationOverride key a namespace pod = (False, None, pod, [])"
  using assms by (auto simp add: applyProjectAnnotationOverride_def)

lemma resolver_parse_failed:
  assumes "cache a namespace = Inr ns"
    and "Annotations ns = Some annotations"
    and "annotations key = Some override"
    and "ParseInt override = (v, Some err)"
  shows "applyProjectAnnotationOverride key a namespace pod =
     (False,
      Some (Errorf (''cannot parse the ActiveDeadlineSeconds override (''
                    @ override @ '') for project '' @ Name ns @ '': '') err),
      pod, [])"
  using assms by (simp add: applyProjectAnnotationOverride_def)

lemma resolver_parsed:
  assumes "cache a namespace = Inr ns"
    and "Annotations ns = Some annotations"
    and "annotations key = Some override"
    and "ParseInt override = (v, None)"
  shows "applyProjectAnnotationOverride key a namespace pod =
     (True, None, set_ActiveDeadlineSeconds (Some v) pod, [OverrideWrite v])"
  using assms by (simp add: applyProjectAnnotationOverride_def)

lemma resolver_outcomes:
  obtains (rejected) err where
      "applyProjectAnnotationOverride key a namespace pod = (False, Some err, pod, [])"
  | (absent) "applyProjectAnnotationOverride key a namespace pod = (False, None, pod, [])"
  | (applied) ns annotations override v where
      "cache a namespace = Inr ns" and "Annotations ns = Some annotations"
      and "annotations key = Some override" and "ParseInt override = (v, None)"
      and "applyProjectAnnotationOverride key a namespace pod
           = (True, None, set_ActiveDeadlineSeconds (Some v) pod, [OverrideWrite v])"
proof (cases "cache a namespace")
  case (Inl err)
  from resolver_lookup_failed [OF this] show thesis by (rule rejected)
next
  case (Inr ns)
  show thesis
  proof (cases "Annotations ns")
    case None
    with Inr show thesis by (intro absent resolver_no_override) auto
  next
    case (Some annotations)
    show thesis
    proof (cases "annotations key")
      case None
      with Inr Some show thesis by (intro absent resolver_no_override) auto
    next
      case present: (Some override)
      obtain v e where parse: "ParseInt override = (v, e)"
        by (cases "ParseInt override") auto
      show thesis
      proof (cases e)
        case None
        with parse have "ParseInt override = (v, None)" by simp
        from Inr Some present this resolver_parsed [OF Inr Some present this]
        show thesis by (rule applied)
      next
        case failed: (Some err)
        with parse have "ParseInt override = (v, Some err)" by simp
        from resolver_parse_failed [OF Inr Some present this] show thesis by (rule rejected)
      qed
    qed
  qed
qed

text \<open>
  What the resolver returns does not depend on the pod it is given, and running it
  again on the pod it returned changes nothing.
\<close>

lemma resolver_again:
  assumes "applyProjectAnnotationOverride key a namespace pod = (applied, err, pod1, ws)"
  shows "applyProjectAnnotationOverride key a namespace pod1 = (applied, err, pod1, ws)"
    and "RestartPolicy (Spec pod1) = RestartPolicy (Spec pod)"
  using assms
  by (auto simp add: applyProjectAnnotationOverride_def set_ActiveDeadlineSeconds_def
      split: sum.splits option.splits prod.splits)

lemma resolver_not_applied:
  assumes "applyProjectAnnotationOverride key a namespace pod = (False, None, pod1, ws)"
  shows "applyProjectAnnotationOverride key a namespace pod2 = (False, None, pod2, [])"
    and "pod1 = pod" and "ws = []"
  using assms
  by (auto simp add: applyProjectAnnotationOverride_def
      split: sum.splits option.splits prod.splits)

subsection \<open>\<^verbatim>\<open>Admit\<close> before and after its filters\<close>

lemma Admit_not_applicable:
  assumes "config a = None \<or> GetResource attributes \<noteq> kapi_Resource ''pods''
           \<or> GetSubresource attributes \<noteq> []"
  shows "Admit key a attributes = (None, attributes, [])"
  using assms by (auto simp add: Admit_def split: option.splits)

lemma Admit_pod:
  assumes "config a = Some cfg"
    and "GetResource attributes = kapi_Resource ''pods''"
    and "GetSubresource attributes = []"
    and "GetObject attributes = PodObject pod"
    and "RestartPolicy (Spec pod) = RestartPolicyNever
         \<or> RestartPolicy (Spec pod) = RestartPolicyOnFailure"
  shows "Admit key a attributes =
     (case applyProjectAnnotationOverride key a (GetNamespace attributes) pod of
        (appliedProjectOverride, Some err, pod1, ws) \<Rightarrow>
          (Some (NewForbidden (attributes\<lparr>GetObject := PodObject pod1\<rparr>) err),
           attributes\<lparr>GetObject := PodObject pod1\<rparr>, ws)
      | (appliedProjectOverride, None, pod1, ws) \<Rightarrow>
          (case ActiveDeadlineSecondsOverride cfg of
             Some d \<Rightarrow>
               if \<not> appliedProjectOverride
               then (None,
                     attributes\<lparr>GetObject := PodObject (set_ActiveDeadlineSeconds (Some d) pod1)\<rparr>,
                     ws @ [DefaultWrite d])
               else (None, attributes\<lparr>GetObject := PodObject pod1\<rparr>, ws)
           | None \<Rightarrow> (None, attributes\<lparr>GetObject := PodObject pod1\<rparr>, ws)))"
  using assms by (simp add: Admit_def)

text \<open>
  The cache matters only on the path to the resolver: for every other request the
  result of \<^verbatim>\<open>Admit\<close> is the same whatever cache the plugin holds.
\<close>

lemma Admit_without_lookup:
  assumes "config a = None \<or> GetResource attributes \<noteq> kapi_Resource ''pods''
           \<or> GetSubresource attributes \<noteq> []
           \<or> (\<exists>repr. GetObject attributes = OtherObject repr)
           \<or> (\<exists>pod. GetObject attributes = PodObject pod
                 \<and> RestartPolicy (Spec pod) \<noteq> RestartPolicyNever
                 \<and> RestartPolicy (Spec pod) \<noteq> RestartPolicyOnFailure)"
  shows "Admit key (a\<lparr>cache := c\<rparr>) attributes = Admit key a attributes"
  using assms by (auto simp add: Admit_def split: option.splits)

lemma same_object:
  "GetObject attributes = obj \<Longrightarrow> attributes\<lparr>GetObject := obj\<rparr> = attributes"
  by auto

subsection \<open>Facts about the scenarios\<close>

lemma parse_120: "ParseInt ''120'' = (120, None)"
  by code_simp

lemma parse_abc: "ParseInt ''abc'' = (0, Some (NumError ''ParseInt'' ''abc'' ErrSyntax))"
  by code_simp

lemma parse_minus_5: "ParseInt ''-5'' = (- 5, None)"
  by code_simp

lemma batch_ns_lookup:
  "batch_ns annotations ''batch-ns'' = Inr \<lparr>Name = ''batch-ns'', Annotations = annotations\<rparr>"
  by (simp add: batch_ns_def)

lemma plugin_config: "config (plugin d c) = Some \<lparr>ActiveDeadlineSecondsOverride = d\<rparr>"
  by (simp add: plugin_def)

lemma plugin_no_default:
  "config (plugin None c) = None
   \<or> (\<exists>cfg. config (plugin None c) = Some cfg \<and> ActiveDeadlineSecondsOverride cfg = None)"
  by (simp add: plugin_def)

lemma plugin_default:
  "ActiveDeadlineSecondsOverride \<lparr>ActiveDeadlineSecondsOverride = Some d\<rparr> = Some d"
  by simp

lemma unconfigured_filtered:
  "config (unconfigured c) = None \<or> GetResource attributes \<noteq> kapi_Resource ''pods''
   \<or> GetSubresource attributes \<noteq> []"
  by (simp add: unconfigured_def)

lemma pod_request_resource:
  "GetResource (pod_request namespace policy deadline) = kapi_Resource ''pods''"
  by (simp add: pod_request_def)

lemma pod_request_subresource: "GetSubresource (pod_request namespace policy deadline) = []"
  by (simp add: pod_request_def)

lemma pod_request_object:
  "GetObject (pod_request namespace policy deadline) = PodObject (pod_of policy deadline)"
  by (simp add: pod_request_def)

lemma policy_never:
  "RestartPolicy (Spec (pod_of RestartPolicyNever deadline)) = RestartPolicyNever
   \<or> RestartPolicy (Spec (pod_of RestartPolicyNever deadline)) = RestartPolicyOnFailure"
  by (simp add: pod_of_def)

lemma policy_on_failure:
  "RestartPolicy (Spec (pod_of RestartPolicyOnFailure deadline)) = RestartPolicyNever
   \<or> RestartPolicy (Spec (pod_of RestartPolicyOnFailure deadline)) = RestartPolicyOnFailure"
  by (simp add: pod_of_def)

lemma policy_always:
  "RestartPolicy (Spec (pod_of RestartPolicyAlways deadline)) = RestartPolicyAlways"
  by (simp add: pod_of_def)

lemma plugin_lookup:
  "cache (plugin d (batch_ns annotations)) (GetNamespace (pod_request ''batch-ns'' policy deadline))
   = Inr \<lparr>Name = ''batch-ns'', Annotations = annotations\<rparr>"
  by (simp add: plugin_def pod_request_def batch_ns_lookup)

lemma plugin_lookup_gone:
  "cache (plugin d (batch_ns annotations)) (GetNamespace (pod_request ''gone'' policy deadline))
   = Inl (ErrorString ''namespace gone does not exist'')"
  by (simp add: plugin_def pod_request_def batch_ns_def)

lemma annotations_some: "Annotations \<lparr>Name = n, Annotations = Some m\<rparr> = Some m"
  by simp

lemma annotation_present: "[k \<mapsto> s] k = Some s"
  by simp

lemma annotation_absent:
  "Annotations \<lparr>Name = n, Annotations = Some Map.empty\<rparr> = None
   \<or> (\<exists>annotations. Annotations \<lparr>Name = n, Annotations = Some Map.empty\<rparr> = Some annotations
        \<and> annotations k = None)"
  by simp

lemma annotations_nil:
  "Annotations \<lparr>Name = n, Annotations = None\<rparr> = None
   \<or> (\<exists>annotations. Annotations \<lparr>Name = n, Annotations = None\<rparr> = Some annotations
        \<and> annotations k = None)"
  by simp

lemma pod_of_deadline:
  "(pod_of policy deadline)\<lparr>Spec := (Spec (pod_of policy deadline))\<lparr>ActiveDeadlineSeconds := v\<rparr>\<rparr>
   = pod_of policy v"
  by (simp add: pod_of_def)

lemma pod_request_deadline:
  "(pod_request namespace policy deadline)\<lparr>GetObject := PodObject (pod_of policy v)\<rparr>
   = pod_request namespace policy v"
  by (simp add: pod_request_def)

subsection \<open>The namespace override\<close>

text \<open>
  C1, as amended. For a configured plugin and a request for a pod (the resource
  \<^verbatim>\<open>pods\<close>, no subresource, a pod as object) with restart policy \<^verbatim>\<open>Never\<close> or
  \<^verbatim>\<open>OnFailure\<close>, whose namespace carries an override annotation that \<^verbatim>\<open>ParseInt\<close>
  accepts with value \<open>v\<close>: \<^verbatim>\<open>Admit\<close> returns nil, the pod's
  \<^verbatim>\<open>ActiveDeadlineSeconds\<close> is \<open>v\<close>, and the only assignment made is the
  resolver's. The configuration \<open>cfg\<close> is arbitrary, so this holds whatever
  cluster-wide default is configured. By \<open>ParseInt_decimal\<close> the annotations that
  \<^verbatim>\<open>ParseInt\<close> accepts are those that denote a base-10 signed 64-bit integer.
\<close>

theorem Admit_override_wins:
  assumes "config a = Some cfg"
    and "GetResource attributes = kapi_Resource ''pods''"
    and "GetSubresource attributes = []"
    and "GetObject attributes = PodObject pod"
    and "RestartPolicy (Spec pod) = RestartPolicyNever
         \<or> RestartPolicy (Spec pod) = RestartPolicyOnFailure"
    and "cache a (GetNamespace attributes) = Inr ns"
    and "Annotations ns = Some annotations"
    and "annotations key = Some override"
    and "ParseInt override = (v, None)"
  shows "Admit key a attributes =
     (None,
      attributes\<lparr>GetObject :=
        PodObject (pod\<lparr>Spec := (Spec pod)\<lparr>ActiveDeadlineSeconds := Some v\<rparr>\<rparr>)\<rparr>,
      [OverrideWrite v])"
  by (simp add: Admit_pod [OF assms(1-5)] resolver_parsed [OF assms(6-9)]
      set_ActiveDeadlineSeconds_def split: option.split)

text \<open>
  The scenario of the specification: \<^verbatim>\<open>batch-ns\<close> carries the override
  \<^verbatim>\<open>"120"\<close>, the pod's restart policy is \<^verbatim>\<open>OnFailure\<close>, the default is 300; the
  resulting deadline is 120.
\<close>

theorem Admit_override_wins_witness:
  "Admit ''active-deadline-override''
     (plugin (Some 300) (batch_ns (Some [''active-deadline-override'' \<mapsto> ''120''])))
     (pod_request ''batch-ns'' RestartPolicyOnFailure None)
   = (None, pod_request ''batch-ns'' RestartPolicyOnFailure (Some 120), [OverrideWrite 120])"
  using Admit_override_wins [where key = "''active-deadline-override''"
      and annotations = "[''active-deadline-override'' \<mapsto> ''120'']",
      OF plugin_config pod_request_resource pod_request_subresource pod_request_object
      policy_on_failure plugin_lookup annotations_some annotation_present parse_120]
  by (simp only: pod_of_deadline pod_request_deadline)

text \<open>
  Without the amendment C1 fails: a plugin created without configuration returns at
  the first case of \<^verbatim>\<open>Admit\<close>'s switch, so the same request in the same namespace is
  admitted with the pod untouched, although the annotation \<^verbatim>\<open>"120"\<close> parses.
\<close>

theorem Admit_override_wins_counterexample:
  "batch_ns (Some [''active-deadline-override'' \<mapsto> ''120'']) ''batch-ns''
   = Inr \<lparr>Name = ''batch-ns'',
          Annotations = Some [''active-deadline-override'' \<mapsto> ''120'']\<rparr>
   \<and> ParseInt ''120'' = (120, None)
   \<and> Admit ''active-deadline-override''
       (unconfigured (batch_ns (Some [''active-deadline-override'' \<mapsto> ''120''])))
       (pod_request ''batch-ns'' RestartPolicyOnFailure None)
     = (None, pod_request ''batch-ns'' RestartPolicyOnFailure None, [])
   \<and> Admit ''active-deadline-override''
       (unconfigured (batch_ns (Some [''active-deadline-override'' \<mapsto> ''120''])))
       (pod_request ''batch-ns'' RestartPolicyOnFailure None)
     \<noteq> (None, pod_request ''batch-ns'' RestartPolicyOnFailure (Some 120), [OverrideWrite 120])"
  by (simp add: batch_ns_lookup parse_120 Admit_not_applicable [OF unconfigured_filtered])

subsection \<open>A malformed override\<close>

text \<open>
  C2, as amended. For a configured plugin and a request for a pod with restart policy
  \<^verbatim>\<open>Never\<close> or \<^verbatim>\<open>OnFailure\<close>, whose namespace carries an override annotation that
  \<^verbatim>\<open>ParseInt\<close> rejects: \<^verbatim>\<open>Admit\<close> returns the forbidden error that wraps the
  resolver's error, the request is returned as it came and nothing is written. The text
  of the resolver's error, and with it the text of the forbidden error, contains the raw
  annotation value and the name of the namespace, whatever \<^verbatim>\<open>strconv.Quote\<close> and
  the library's text for a forbidden error are.
\<close>

theorem Admit_malformed_override:
  assumes "config a = Some cfg"
    and "GetResource attributes = kapi_Resource ''pods''"
    and "GetSubresource attributes = []"
    and "GetObject attributes = PodObject pod"
    and "RestartPolicy (Spec pod) = RestartPolicyNever
         \<or> RestartPolicy (Spec pod) = RestartPolicyOnFailure"
    and "cache a (GetNamespace attributes) = Inr ns"
    and "Annotations ns = Some annotations"
    and "annotations key = Some override"
    and "ParseInt override = (v, Some err)"
  shows "let inner = Errorf (''cannot parse the ActiveDeadlineSeconds override (''
                             @ override @ '') for project '' @ Name ns @ '': '') err;
             e = NewForbidden attributes inner
         in Admit key a attributes = (Some e, attributes, [])
            \<and> sublist override (error_text quote who inner)
            \<and> sublist (Name ns) (error_text quote who inner)
            \<and> sublist override (error_text quote who e)
            \<and> sublist (Name ns) (error_text quote who e)"
proof -
  let ?pre = "''cannot parse the ActiveDeadlineSeconds override ('' @ override
              @ '') for project '' @ Name ns @ '': ''"
  let ?inner = "Errorf ?pre err"
  let ?e = "NewForbidden attributes ?inner"
  have run: "Admit key a attributes = (Some ?e, attributes, [])"
    by (simp add: Admit_pod [OF assms(1-5)] resolver_parse_failed [OF assms(6-9)]
        same_object [OF assms(4)])
  have "error_text quote who ?inner
        = ''cannot parse the ActiveDeadlineSeconds override (''
          @ override @ ('') for project '' @ Name ns @ '': '' @ error_text quote who err)"
    by simp
  then have raw: "sublist override (error_text quote who ?inner)"
    by (metis sublist_appendI)
  have "error_text quote who ?inner
        = (''cannot parse the ActiveDeadlineSeconds override ('' @ override
            @ '') for project '')
          @ Name ns @ ('': '' @ error_text quote who err)"
    by simp
  then have named: "sublist (Name ns) (error_text quote who ?inner)"
    by (metis sublist_appendI)
  have wrapped: "sublist (error_text quote who ?inner) (error_text quote who ?e)"
    by (simp add: NewForbidden_def)
  from raw wrapped have raw_outer: "sublist override (error_text quote who ?e)"
    by (rule sublist_order.order_trans)
  from named wrapped have named_outer: "sublist (Name ns) (error_text quote who ?e)"
    by (rule sublist_order.order_trans)
  from run raw named raw_outer named_outer show ?thesis by (simp add: Let_def)
qed

text \<open>
  The annotation \<^verbatim>\<open>"abc"\<close> on \<^verbatim>\<open>batch-ns\<close>: the request is rejected, and the text
  of the rejection names \<^verbatim>\<open>abc\<close> and \<^verbatim>\<open>batch-ns\<close>.
\<close>

theorem Admit_malformed_override_witness:
  "Admit ''active-deadline-override''
     (plugin (Some 300) (batch_ns (Some [''active-deadline-override'' \<mapsto> ''abc''])))
     (pod_request ''batch-ns'' RestartPolicyNever (Some 600))
   = (Some (Forbidden (pod_request ''batch-ns'' RestartPolicyNever (Some 600))
              (Errorf ''cannot parse the ActiveDeadlineSeconds override (abc) for project batch-ns: ''
                 (NumError ''ParseInt'' ''abc'' ErrSyntax))),
      pod_request ''batch-ns'' RestartPolicyNever (Some 600), [])
   \<and> sublist ''abc''
       (error_text (\<lambda>s. s) (\<lambda>r. Resource (GetResource r) @ '' is forbidden: '')
          (Forbidden (pod_request ''batch-ns'' RestartPolicyNever (Some 600))
             (Errorf ''cannot parse the ActiveDeadlineSeconds override (abc) for project batch-ns: ''
                (NumError ''ParseInt'' ''abc'' ErrSyntax))))
   \<and> sublist ''batch-ns''
       (error_text (\<lambda>s. s) (\<lambda>r. Resource (GetResource r) @ '' is forbidden: '')
          (Forbidden (pod_request ''batch-ns'' RestartPolicyNever (Some 600))
             (Errorf ''cannot parse the ActiveDeadlineSeconds override (abc) for project batch-ns: ''
                (NumError ''ParseInt'' ''abc'' ErrSyntax))))"
  using Admit_malformed_override [where key = "''active-deadline-override''"
      and annotations = "[''active-deadline-override'' \<mapsto> ''abc'']"
      and quote = "\<lambda>s. s" and who = "\<lambda>r. Resource (GetResource r) @ '' is forbidden: ''",
      OF plugin_config pod_request_resource pod_request_subresource
      pod_request_object policy_never plugin_lookup annotations_some annotation_present parse_abc]
  by (simp add: Let_def NewForbidden_def)

text \<open>
  Without the amendment C2 fails: a plugin created without configuration admits the
  request (the returned error is nil) although the annotation \<^verbatim>\<open>"abc"\<close> does not
  parse.
\<close>

theorem Admit_malformed_override_counterexample:
  "batch_ns (Some [''active-deadline-override'' \<mapsto> ''abc'']) ''batch-ns''
   = Inr \<lparr>Name = ''batch-ns'',
          Annotations = Some [''active-deadline-override'' \<mapsto> ''abc'']\<rparr>
   \<and> ParseInt ''abc'' = (0, Some (NumError ''ParseInt'' ''abc'' ErrSyntax))
   \<and> Admit ''active-deadline-override''
       (unconfigured (batch_ns (Some [''active-deadline-override'' \<mapsto> ''abc''])))
       (pod_request ''batch-ns'' RestartPolicyNever (Some 600))
     = (None, pod_request ''batch-ns'' RestartPolicyNever (Some 600), [])"
  by (simp add: batch_ns_lookup parse_abc Admit_not_applicable [OF unconfigured_filtered])

subsection \<open>The cluster-wide default\<close>

text \<open>
  C3. For a request for a pod (the resource \<^verbatim>\<open>pods\<close>, no subresource, a pod as
  object) with restart policy \<^verbatim>\<open>Never\<close> or \<^verbatim>\<open>OnFailure\<close>, whose namespace has no
  annotations or lacks the override annotation: when the configuration holds a default
  \<open>d\<close>, \<^verbatim>\<open>Admit\<close> returns nil and the pod's \<^verbatim>\<open>ActiveDeadlineSeconds\<close> is \<open>d\<close>,
  whatever the submitter had set (\<open>pod\<close> is arbitrary); the only assignment made is the
  one in \<^verbatim>\<open>Admit\<close>.
\<close>

theorem Admit_default:
  assumes "config a = Some cfg"
    and "GetResource attributes = kapi_Resource ''pods''"
    and "GetSubresource attributes = []"
    and "GetObject attributes = PodObject pod"
    and "RestartPolicy (Spec pod) = RestartPolicyNever
         \<or> RestartPolicy (Spec pod) = RestartPolicyOnFailure"
    and "cache a (GetNamespace attributes) = Inr ns"
    and "Annotations ns = None
         \<or> (\<exists>annotations. Annotations ns = Some annotations \<and> annotations key = None)"
    and "ActiveDeadlineSecondsOverride cfg = Some d"
  shows "Admit key a attributes =
     (None,
      attributes\<lparr>GetObject :=
        PodObject (pod\<lparr>Spec := (Spec pod)\<lparr>ActiveDeadlineSeconds := Some d\<rparr>\<rparr>)\<rparr>,
      [DefaultWrite d])"
  by (simp add: Admit_pod [OF assms(1-5)] resolver_no_override [OF assms(6,7)] assms(8)
      set_ActiveDeadlineSeconds_def)

text \<open>
  The scenario of the specification: no override annotation on \<^verbatim>\<open>batch-ns\<close>, restart
  policy \<^verbatim>\<open>Never\<close>, default 300, deadline 600 set by the submitter; the resulting
  deadline is 300.
\<close>

theorem Admit_default_witness:
  "Admit ''active-deadline-override'' (plugin (Some 300) (batch_ns (Some Map.empty)))
     (pod_request ''batch-ns'' RestartPolicyNever (Some 600))
   = (None, pod_request ''batch-ns'' RestartPolicyNever (Some 300), [DefaultWrite 300])"
  using Admit_default [where key = "''active-deadline-override''",
      OF plugin_config pod_request_resource pod_request_subresource
      pod_request_object policy_never plugin_lookup annotation_absent plugin_default]
  by (simp only: pod_of_deadline pod_request_deadline)

subsection \<open>One outcome per decision\<close>

text \<open>
  C4. Every call of \<^verbatim>\<open>Admit\<close> makes at most one assignment to the pod's
  \<^verbatim>\<open>ActiveDeadlineSeconds\<close>, and exactly one of three things has happened, told apart
  by the list of writes: nothing was written and the request is as it came; or the
  resolver wrote the value parsed from the namespace's override annotation, which is the
  pod's deadline now; or \<^verbatim>\<open>Admit\<close> wrote the configured default, which is the pod's
  deadline now. The list never holds both an override and a default.
\<close>

theorem Admit_one_outcome:
  "case Admit key a attributes of
     (err, attributes1, ws) \<Rightarrow>
       length ws \<le> 1
       \<and> (case ws of
            [] \<Rightarrow> attributes1 = attributes
          | OverrideWrite v # rest \<Rightarrow>
              (\<exists>pod ns annotations override.
                 GetObject attributes = PodObject pod
                 \<and> cache a (GetNamespace attributes) = Inr ns
                 \<and> Annotations ns = Some annotations
                 \<and> annotations key = Some override
                 \<and> ParseInt override = (v, None)
                 \<and> attributes1 = attributes\<lparr>GetObject :=
                      PodObject (pod\<lparr>Spec := (Spec pod)\<lparr>ActiveDeadlineSeconds := Some v\<rparr>\<rparr>)\<rparr>)
          | DefaultWrite d # rest \<Rightarrow>
              (\<exists>pod cfg.
                 GetObject attributes = PodObject pod
                 \<and> config a = Some cfg
                 \<and> ActiveDeadlineSecondsOverride cfg = Some d
                 \<and> attributes1 = attributes\<lparr>GetObject :=
                      PodObject (pod\<lparr>Spec := (Spec pod)\<lparr>ActiveDeadlineSeconds := Some d\<rparr>\<rparr>)\<rparr>))"
proof (cases "config a = None \<or> GetResource attributes \<noteq> kapi_Resource ''pods''
              \<or> GetSubresource attributes \<noteq> []")
  case True
  then show ?thesis by (simp add: Admit_not_applicable)
next
  case False
  then obtain cfg where cfg: "config a = Some cfg"
    and res: "GetResource attributes = kapi_Resource ''pods''"
    and sub: "GetSubresource attributes = []"
    by auto
  show ?thesis
  proof (cases "GetObject attributes")
    case (OtherObject repr)
    then show ?thesis by (simp add: Admit_def cfg res sub)
  next
    case (PodObject pod)
    show ?thesis
    proof (cases "RestartPolicy (Spec pod) = RestartPolicyNever
                  \<or> RestartPolicy (Spec pod) = RestartPolicyOnFailure")
      case False
      then show ?thesis by (simp add: Admit_def cfg res sub PodObject)
    next
      case True
      note run = Admit_pod [OF cfg res sub PodObject True, of key]
      show ?thesis
      proof (cases key a "GetNamespace attributes" pod rule: resolver_outcomes)
        case (rejected err)
        then show ?thesis by (simp add: run same_object [OF PodObject])
      next
        case absent
        then show ?thesis
          by (cases "ActiveDeadlineSecondsOverride cfg")
             (simp_all add: run same_object [OF PodObject] PodObject cfg
               set_ActiveDeadlineSeconds_def)
      next
        case (applied ns annotations override v)
        then show ?thesis
          by (cases "ActiveDeadlineSecondsOverride cfg")
             (simp_all add: run PodObject set_ActiveDeadlineSeconds_def)
      qed
    qed
  qed
qed

text \<open>
  At the request of the first scenario, where the list of writes is
  \<open>[OverrideWrite 120]\<close>.
\<close>

theorem Admit_one_outcome_witness:
  "case Admit ''active-deadline-override''
          (plugin (Some 300) (batch_ns (Some [''active-deadline-override'' \<mapsto> ''120''])))
          (pod_request ''batch-ns'' RestartPolicyOnFailure None) of
     (err, attributes1, ws) \<Rightarrow>
       length ws \<le> 1
       \<and> (case ws of
            [] \<Rightarrow> attributes1 = pod_request ''batch-ns'' RestartPolicyOnFailure None
          | OverrideWrite v # rest \<Rightarrow>
              (\<exists>pod ns annotations override.
                 GetObject (pod_request ''batch-ns'' RestartPolicyOnFailure None) = PodObject pod
                 \<and> cache (plugin (Some 300)
                           (batch_ns (Some [''active-deadline-override'' \<mapsto> ''120''])))
                      (GetNamespace (pod_request ''batch-ns'' RestartPolicyOnFailure None))
                    = Inr ns
                 \<and> Annotations ns = Some annotations
                 \<and> annotations ''active-deadline-override'' = Some override
                 \<and> ParseInt override = (v, None)
                 \<and> attributes1 = (pod_request ''batch-ns'' RestartPolicyOnFailure None)
                      \<lparr>GetObject :=
                         PodObject (pod\<lparr>Spec := (Spec pod)\<lparr>ActiveDeadlineSeconds := Some v\<rparr>\<rparr>)\<rparr>)
          | DefaultWrite d # rest \<Rightarrow>
              (\<exists>pod cfg.
                 GetObject (pod_request ''batch-ns'' RestartPolicyOnFailure None) = PodObject pod
                 \<and> config (plugin (Some 300)
                            (batch_ns (Some [''active-deadline-override'' \<mapsto> ''120''])))
                    = Some cfg
                 \<and> ActiveDeadlineSecondsOverride cfg = Some d
                 \<and> attributes1 = (pod_request ''batch-ns'' RestartPolicyOnFailure None)
                      \<lparr>GetObject :=
                         PodObject (pod\<lparr>Spec := (Spec pod)\<lparr>ActiveDeadlineSeconds := Some d\<rparr>\<rparr>)\<rparr>))"
  by (rule Admit_one_outcome)

subsection \<open>Pods that restart\<close>

text \<open>
  C5. For a pod whose restart policy is \<^verbatim>\<open>Always\<close>, \<^verbatim>\<open>Admit\<close> returns nil, the
  request is as it came and nothing is written. The plugin \<open>a\<close> is arbitrary: the
  result is the same for every configuration and every cache, so the cache is not
  consulted.
\<close>

theorem Admit_restart_always:
  assumes "GetObject attributes = PodObject pod"
    and "RestartPolicy (Spec pod) = RestartPolicyAlways"
  shows "Admit key a attributes = (None, attributes, [])"
  using assms
  by (simp add: Admit_def RestartPolicyAlways_def RestartPolicyNever_def
      RestartPolicyOnFailure_def split: option.split)

theorem Admit_restart_always_witness:
  "Admit ''active-deadline-override''
     (plugin (Some 300) (batch_ns (Some [''active-deadline-override'' \<mapsto> ''120''])))
     (pod_request ''batch-ns'' RestartPolicyAlways (Some 600))
   = (None, pod_request ''batch-ns'' RestartPolicyAlways (Some 600), [])"
  using Admit_restart_always [OF pod_request_object policy_always] by simp

subsection \<open>Neither override nor default\<close>

text \<open>
  C6. For a pod with restart policy \<^verbatim>\<open>Never\<close> or \<^verbatim>\<open>OnFailure\<close>, whose namespace
  has no annotations or lacks the override annotation: when the configuration holds no
  default (or there is no configuration), \<^verbatim>\<open>Admit\<close> returns nil, the request is as it
  came, with the deadline the submitter provided, and nothing is written.
\<close>

theorem Admit_no_override_no_default:
  assumes "config a = None
           \<or> (\<exists>cfg. config a = Some cfg \<and> ActiveDeadlineSecondsOverride cfg = None)"
    and "GetObject attributes = PodObject pod"
    and "RestartPolicy (Spec pod) = RestartPolicyNever
         \<or> RestartPolicy (Spec pod) = RestartPolicyOnFailure"
    and "cache a (GetNamespace attributes) = Inr ns"
    and "Annotations ns = None
         \<or> (\<exists>annotations. Annotations ns = Some annotations \<and> annotations key = None)"
  shows "Admit key a attributes = (None, attributes, [])"
proof (cases "config a = None \<or> GetResource attributes \<noteq> kapi_Resource ''pods''
              \<or> GetSubresource attributes \<noteq> []")
  case True
  then show ?thesis by (rule Admit_not_applicable)
next
  case False
  with assms(1) obtain cfg where cfg: "config a = Some cfg"
    and no_default: "ActiveDeadlineSecondsOverride cfg = None"
    and res: "GetResource attributes = kapi_Resource ''pods''"
    and sub: "GetSubresource attributes = []"
    by auto
  show ?thesis
    by (simp add: Admit_pod [OF cfg res sub assms(2,3)] resolver_no_override [OF assms(4,5)]
        no_default same_object [OF assms(2)])
qed

theorem Admit_no_override_no_default_witness:
  "Admit ''active-deadline-override'' (plugin None (batch_ns None))
     (pod_request ''batch-ns'' RestartPolicyOnFailure (Some 600))
   = (None, pod_request ''batch-ns'' RestartPolicyOnFailure (Some 600), [])"
  using Admit_no_override_no_default [where key = "''active-deadline-override''",
      OF plugin_no_default pod_request_object policy_on_failure plugin_lookup annotations_nil]
  by simp

subsection \<open>A failed namespace lookup\<close>

text \<open>
  C7. \<^verbatim>\<open>Admit\<close> looks the namespace up only for a configured plugin and a request for
  the resource \<^verbatim>\<open>pods\<close> without subresource whose object is a pod with restart policy
  \<^verbatim>\<open>Never\<close> or \<^verbatim>\<open>OnFailure\<close> (for every other request the cache is immaterial,
  \<open>Admit_without_lookup\<close>). When that lookup fails with \<open>err\<close>, the resolver
  returns false and an error whose text is \<^verbatim>\<open>error looking up pod namespace: \<close>
  followed by the text of \<open>err\<close>; \<^verbatim>\<open>Admit\<close> returns the forbidden error that wraps
  it, whose text ends with that message; the request is as it came and nothing is
  written.
\<close>

theorem Admit_lookup_failed:
  assumes "config a = Some cfg"
    and "GetResource attributes = kapi_Resource ''pods''"
    and "GetSubresource attributes = []"
    and "GetObject attributes = PodObject pod"
    and "RestartPolicy (Spec pod) = RestartPolicyNever
         \<or> RestartPolicy (Spec pod) = RestartPolicyOnFailure"
    and "cache a (GetNamespace attributes) = Inl err"
  shows "applyProjectAnnotationOverride key a (GetNamespace attributes) pod
           = (False, Some (Errorf ''error looking up pod namespace: '' err), pod, [])
         \<and> error_text quote who (Errorf ''error looking up pod namespace: '' err)
           = ''error looking up pod namespace: '' @ error_text quote who err
         \<and> Admit key a attributes
           = (Some (NewForbidden attributes (Errorf ''error looking up pod namespace: '' err)),
              attributes, [])
         \<and> error_text quote who
             (NewForbidden attributes (Errorf ''error looking up pod namespace: '' err))
           = who attributes @ ''error looking up pod namespace: '' @ error_text quote who err"
  by (simp add: Admit_pod [OF assms(1-5)] resolver_lookup_failed [OF assms(6)]
      same_object [OF assms(4)] NewForbidden_def)

text \<open>A request in a namespace that the cache does not know.\<close>

theorem Admit_lookup_failed_witness:
  "applyProjectAnnotationOverride ''active-deadline-override''
     (plugin (Some 300) (batch_ns None))
     (GetNamespace (pod_request ''gone'' RestartPolicyNever (Some 600)))
     (pod_of RestartPolicyNever (Some 600))
   = (False,
      Some (Errorf ''error looking up pod namespace: ''
              (ErrorString ''namespace gone does not exist'')),
      pod_of RestartPolicyNever (Some 600), [])
   \<and> Admit ''active-deadline-override'' (plugin (Some 300) (batch_ns None))
       (pod_request ''gone'' RestartPolicyNever (Some 600))
     = (Some (Forbidden (pod_request ''gone'' RestartPolicyNever (Some 600))
                (Errorf ''error looking up pod namespace: ''
                   (ErrorString ''namespace gone does not exist''))),
        pod_request ''gone'' RestartPolicyNever (Some 600), [])
   \<and> error_text (\<lambda>s. s) (\<lambda>r. Resource (GetResource r) @ '' is forbidden: '')
       (Forbidden (pod_request ''gone'' RestartPolicyNever (Some 600))
          (Errorf ''error looking up pod namespace: ''
             (ErrorString ''namespace gone does not exist'')))
     = ''pods is forbidden: error looking up pod namespace: namespace gone does not exist''"
  using Admit_lookup_failed [where key = "''active-deadline-override''"
      and quote = "\<lambda>s. s" and who = "\<lambda>r. Resource (GetResource r) @ '' is forbidden: ''",
      OF plugin_config pod_request_resource pod_request_subresource
      pod_request_object policy_never plugin_lookup_gone]
  by (simp add: NewForbidden_def pod_request_def kapi_Resource_def)

subsection \<open>Requests that are not applicable\<close>

text \<open>
  C8. When the plugin has no configuration, or the resource is not \<^verbatim>\<open>pods\<close>, or the
  subresource is not empty, \<^verbatim>\<open>Admit\<close> returns nil, the request is as it came and
  nothing is written. This is so for whatever object the request carries and whatever
  cache the plugin holds: neither is looked at.
\<close>

theorem Admit_filters:
  assumes "config a = None \<or> GetResource attributes \<noteq> kapi_Resource ''pods''
           \<or> GetSubresource attributes \<noteq> []"
  shows "Admit key a attributes = (None, attributes, [])
         \<and> (\<forall>c obj. Admit key (a\<lparr>cache := c\<rparr>) (attributes\<lparr>GetObject := obj\<rparr>)
                      = (None, attributes\<lparr>GetObject := obj\<rparr>, []))"
  using assms by (auto simp add: Admit_not_applicable)

text \<open>
  One request for each of the three filters: no configuration, the resource
  \<^verbatim>\<open>services\<close>, the subresource \<^verbatim>\<open>status\<close>.
\<close>

theorem Admit_filters_witness:
  "Admit ''active-deadline-override''
     (unconfigured (batch_ns (Some [''active-deadline-override'' \<mapsto> ''120''])))
     (pod_request ''batch-ns'' RestartPolicyNever (Some 600))
   = (None, pod_request ''batch-ns'' RestartPolicyNever (Some 600), [])
   \<and> Admit ''active-deadline-override''
       (plugin (Some 300) (batch_ns (Some [''active-deadline-override'' \<mapsto> ''120''])))
       ((pod_request ''batch-ns'' RestartPolicyNever (Some 600))
          \<lparr>GetResource := kapi_Resource ''services''\<rparr>)
     = (None,
        (pod_request ''batch-ns'' RestartPolicyNever (Some 600))
          \<lparr>GetResource := kapi_Resource ''services''\<rparr>, [])
   \<and> Admit ''active-deadline-override''
       (plugin (Some 300) (batch_ns (Some [''active-deadline-override'' \<mapsto> ''120''])))
       ((pod_request ''batch-ns'' RestartPolicyNever (Some 600))\<lparr>GetSubresource := ''status''\<rparr>)
     = (None,
        (pod_request ''batch-ns'' RestartPolicyNever (Some 600))\<lparr>GetSubresource := ''status''\<rparr>,
        [])"
proof -
  have services:
    "config (plugin (Some 300) (batch_ns (Some [''active-deadline-override'' \<mapsto> ''120''])))
       = None
     \<or> GetResource ((pod_request ''batch-ns'' RestartPolicyNever (Some 600))
          \<lparr>GetResource := kapi_Resource ''services''\<rparr>) \<noteq> kapi_Resource ''pods''
     \<or> GetSubresource ((pod_request ''batch-ns'' RestartPolicyNever (Some 600))
          \<lparr>GetResource := kapi_Resource ''services''\<rparr>) \<noteq> []"
    by (simp add: kapi_Resource_def)
  have status:
    "config (plugin (Some 300) (batch_ns (Some [''active-deadline-override'' \<mapsto> ''120''])))
       = None
     \<or> GetResource ((pod_request ''batch-ns'' RestartPolicyNever (Some 600))
          \<lparr>GetSubresource := ''status''\<rparr>) \<noteq> kapi_Resource ''pods''
     \<or> GetSubresource ((pod_request ''batch-ns'' RestartPolicyNever (Some 600))
          \<lparr>GetSubresource := ''status''\<rparr>) \<noteq> []"
    by simp
  from Admit_filters [OF unconfigured_filtered] Admit_filters [OF services]
    Admit_filters [OF status]
  show ?thesis by blast
qed

subsection \<open>Idempotence\<close>

text \<open>
  C9. Running \<^verbatim>\<open>Admit\<close> again, with the same plugin and the same cache, on the
  request that the first run left behind gives the same result as the first run: the
  same error or nil, the same request (so the pod's deadline is what the first run made
  it) and the same writes. \<^verbatim>\<open>Admit\<close> is a function of the plugin, the cache and the
  request, so it is deterministic.
\<close>

theorem Admit_idempotent:
  "Admit key a (fst (snd (Admit key a attributes))) = Admit key a attributes"
proof (cases "config a = None \<or> GetResource attributes \<noteq> kapi_Resource ''pods''
              \<or> GetSubresource attributes \<noteq> []")
  case True
  then show ?thesis by (simp add: Admit_not_applicable)
next
  case False
  then obtain cfg where cfg: "config a = Some cfg"
    and res: "GetResource attributes = kapi_Resource ''pods''"
    and sub: "GetSubresource attributes = []"
    by auto
  show ?thesis
  proof (cases "GetObject attributes")
    case (OtherObject repr)
    then show ?thesis by (simp add: Admit_def cfg res sub)
  next
    case (PodObject pod)
    show ?thesis
    proof (cases "RestartPolicy (Spec pod) = RestartPolicyNever
                  \<or> RestartPolicy (Spec pod) = RestartPolicyOnFailure")
      case False
      then show ?thesis by (simp add: Admit_def cfg res sub PodObject)
    next
      case True
      note first = Admit_pod [OF cfg res sub PodObject True, of key]
      obtain applied err pod1 ws
        where r: "applyProjectAnnotationOverride key a (GetNamespace attributes) pod
                  = (applied, err, pod1, ws)"
        by (cases "applyProjectAnnotationOverride key a (GetNamespace attributes) pod") auto
      note again = resolver_again [OF r]
      have pol1: "RestartPolicy (Spec pod1) = RestartPolicyNever
                  \<or> RestartPolicy (Spec pod1) = RestartPolicyOnFailure"
        using True again(2) by simp
      show ?thesis
      proof (cases "err = None \<and> \<not> applied \<and> ActiveDeadlineSecondsOverride cfg \<noteq> None")
        case False
        then have out:
          "fst (snd (Admit key a attributes)) = attributes\<lparr>GetObject := PodObject pod1\<rparr>"
          by (auto simp add: first r split: option.splits)
        have "Admit key a (attributes\<lparr>GetObject := PodObject pod1\<rparr>) = Admit key a attributes"
          using False pol1
          by (subst Admit_pod [where cfg = cfg and pod = pod1])
             (auto simp add: cfg res sub again(1) first r split: option.splits)
        then show ?thesis by (simp add: out)
      next
        case defaulted: True
        then obtain d where d: "ActiveDeadlineSecondsOverride cfg = Some d" by auto
        from defaulted r
        have r': "applyProjectAnnotationOverride key a (GetNamespace attributes) pod
                  = (False, None, pod1, ws)"
          by simp
        note na = resolver_not_applied [OF r']
        let ?pod2 = "set_ActiveDeadlineSeconds (Some d) pod"
        have out: "Admit key a attributes
                   = (None, attributes\<lparr>GetObject := PodObject ?pod2\<rparr>, [DefaultWrite d])"
          by (simp add: first r' d na(2,3))
        have pol2: "RestartPolicy (Spec ?pod2) = RestartPolicyNever
                    \<or> RestartPolicy (Spec ?pod2) = RestartPolicyOnFailure"
          using True by (simp add: set_ActiveDeadlineSeconds_def)
        have "Admit key a (attributes\<lparr>GetObject := PodObject ?pod2\<rparr>)
              = (None, attributes\<lparr>GetObject := PodObject ?pod2\<rparr>, [DefaultWrite d])"
          using pol2
          by (subst Admit_pod [where cfg = cfg and pod = ?pod2])
             (simp_all add: cfg res sub na(1) d set_ActiveDeadlineSeconds_def)
        then show ?thesis by (simp add: out)
      qed
    qed
  qed
qed

text \<open>
  The second scenario of the specification, run twice: the first run replaces the
  submitter's 600 by the default 300, and so does the second, on the pod that holds 300.
\<close>

theorem Admit_idempotent_witness:
  "Admit ''active-deadline-override'' (plugin (Some 300) (batch_ns (Some Map.empty)))
     (pod_request ''batch-ns'' RestartPolicyNever (Some 300))
   = (None, pod_request ''batch-ns'' RestartPolicyNever (Some 300), [DefaultWrite 300])"
proof -
  have first:
    "Admit ''active-deadline-override'' (plugin (Some 300) (batch_ns (Some Map.empty)))
       (pod_request ''batch-ns'' RestartPolicyNever (Some 600))
     = (None, pod_request ''batch-ns'' RestartPolicyNever (Some 300), [DefaultWrite 300])"
    by (simp add: Admit_pod [OF plugin_config pod_request_resource pod_request_subresource
          pod_request_object policy_never]
        resolver_no_override [OF plugin_lookup annotation_absent]
        set_ActiveDeadlineSeconds_def pod_of_deadline pod_request_deadline)
  from Admit_idempotent [of "''active-deadline-override''"
      "plugin (Some 300) (batch_ns (Some Map.empty))"
      "pod_request ''batch-ns'' RestartPolicyNever (Some 600)"]
  show ?thesis unfolding first by simp
qed

subsection \<open>Negative overrides\<close>

text \<open>
  C10. Whenever \<^verbatim>\<open>ParseInt\<close> accepts the value of the namespace's override
  annotation, with any 64-bit result \<open>v\<close>, the resolver returns true and no error,
  the pod's \<^verbatim>\<open>ActiveDeadlineSeconds\<close> is \<open>v\<close> and \<open>v\<close> is the one value written;
  read as a signed number, \<open>v\<close> is the integer that the annotation denotes in base 10.
  There is no condition on the sign of \<open>v\<close>; the witness is the annotation
  \<^verbatim>\<open>"-5"\<close>, for which the pod's deadline becomes \<open>- 5\<close>.
\<close>

theorem resolver_accepts_any_int64:
  assumes "cache a namespace = Inr ns"
    and "Annotations ns = Some annotations"
    and "annotations key = Some override"
    and "ParseInt override = (v, None)"
  shows "applyProjectAnnotationOverride key a namespace pod =
           (True, None, pod\<lparr>Spec := (Spec pod)\<lparr>ActiveDeadlineSeconds := Some v\<rparr>\<rparr>,
            [OverrideWrite v])
         \<and> decimal_int64 override = Some (sint v)"
  using assms(4) by (simp add: resolver_parsed [OF assms] set_ActiveDeadlineSeconds_def
      ParseInt_decimal)

theorem resolver_accepts_any_int64_witness:
  "applyProjectAnnotationOverride ''active-deadline-override''
     (plugin (Some 300) (batch_ns (Some [''active-deadline-override'' \<mapsto> ''-5''])))
     ''batch-ns'' (pod_of RestartPolicyNever None)
   = (True, None, pod_of RestartPolicyNever (Some (- 5)), [OverrideWrite (- 5)])
   \<and> decimal_int64 ''-5'' = Some (- 5)
   \<and> sint (- 5 :: int64) = - 5"
proof -
  have lookup:
    "cache (plugin (Some 300) (batch_ns (Some [''active-deadline-override'' \<mapsto> ''-5''])))
       ''batch-ns''
     = Inr \<lparr>Name = ''batch-ns'',
            Annotations = Some [''active-deadline-override'' \<mapsto> ''-5'']\<rparr>"
    by (simp add: plugin_def batch_ns_lookup)
  from resolver_accepts_any_int64 [where key = "''active-deadline-override''"
      and annotations = "[''active-deadline-override'' \<mapsto> ''-5'']",
      OF lookup annotations_some annotation_present parse_minus_5]
  show ?thesis by (simp add: pod_of_deadline)
qed

end
